theory Spec2Isabelle
  imports Complex_Main
begin

section \<open>The two-page window of \<open>BidirectionalInfiniteScroll\<close>\<close>

text \<open>
  The component of \<^verbatim>\<open>src/src/utils.ts\<close> keeps five pieces of React state
  (\<^verbatim>\<open>visiblePages\<close>, \<^verbatim>\<open>isLoading\<close>, \<^verbatim>\<open>scrollToPage\<close> and the two overlay
  flags), derives \<^verbatim>\<open>totalPages\<close>, \<^verbatim>\<open>canLoadNext\<close> and \<^verbatim>\<open>canLoadPrev\<close> from them on
  every render, and changes them from two asynchronous handlers, two intersection
  observer callbacks and one ref callback.  This theory embeds that state machine.

  Numbers.  Page indices, array lengths and DOM measurements are integers, and are
  modelled as \<open>int\<close>.  \<^verbatim>\<open>pageSize\<close> is taken to be an integer as well.  The only
  place where JavaScript's number type leaves the integers is the division
  \<^verbatim>\<open>data.length / pageSize\<close>: for \<^verbatim>\<open>pageSize = 0\<close> it is \<^verbatim>\<open>Infinity\<close> (non-empty
  data) or \<^verbatim>\<open>NaN\<close> (empty data).  \<open>jsnum\<close> carries these two values next to the
  integers, with the comparisons of the source written out for them.
\<close>

subsection \<open>Numbers and arrays of JavaScript\<close>

datatype jsnum = Finite int | Infinity | NaN

text \<open>\<^verbatim>\<open>x - 1\<close> for a number \<open>x\<close>.\<close>

fun js_pred :: "jsnum \<Rightarrow> jsnum" where
  "js_pred (Finite k) = Finite (k - 1)"
| "js_pred Infinity = Infinity"
| "js_pred NaN = NaN"

text \<open>\<^verbatim>\<open>i < x\<close> and \<^verbatim>\<open>i >= x\<close> for an integer \<open>i\<close>: every comparison with \<^verbatim>\<open>NaN\<close> is false.\<close>

fun js_lt :: "int \<Rightarrow> jsnum \<Rightarrow> bool" where
  "js_lt i (Finite k) = (i < k)"
| "js_lt i Infinity = True"
| "js_lt i NaN = False"

fun js_ge :: "int \<Rightarrow> jsnum \<Rightarrow> bool" where
  "js_ge i (Finite k) = (i \<ge> k)"
| "js_ge i Infinity = False"
| "js_ge i NaN = False"

text \<open>
  \<^verbatim>\<open>Math.ceil(n / d)\<close> for an array length \<open>n\<close> and an integer \<open>d\<close>.  For \<open>d \<noteq> 0\<close> the
  quotient is rounded up; \<open>- ((- n) div d)\<close> is that ceiling in integer arithmetic
  (\<open>div\<close> rounds down), see lemma \<open>ceil_div_ceiling\<close>.
\<close>

definition ceil_div :: "nat \<Rightarrow> int \<Rightarrow> jsnum" where
  "ceil_div n d =
     (if d = 0 then (if n = 0 then NaN else Infinity)
      else Finite (- ((- int n) div d)))"

text \<open>
  \<^verbatim>\<open>Array.prototype.slice(start, end)\<close>: a negative argument counts from the end of
  the array, both are clamped to the array, and an empty range gives the empty array.
\<close>

definition js_slice :: "'a list \<Rightarrow> int \<Rightarrow> int \<Rightarrow> 'a list" where
  "js_slice xs start end' =
     (let len = int (length xs);
          k = (if start < 0 then max (len + start) 0 else min start len);
          final = (if end' < 0 then max (len + end') 0 else min end' len)
      in take (nat (final - k)) (drop (nat k) xs))"

subsection \<open>Props, state and derived values\<close>

text \<open>
  Of the props only \<^verbatim>\<open>data\<close> and \<^verbatim>\<open>pageSize\<close> enter the window logic.  \<^verbatim>\<open>pageLoadDelay\<close>
  is the length of the pause between the two halves of a handler, which the model
  represents as two separate events; the rendering props do not touch the state.
\<close>

record 'a props =
  data :: "'a list"
  pageSize :: int

text \<open>The five \<^verbatim>\<open>useState\<close> cells.\<close>

record state =
  visiblePages :: "int list"
  isLoading :: bool
  scrollToPage :: "int option"
  showTopOverlay :: bool
  showBottomOverlay :: bool

text \<open>The initial values passed to \<^verbatim>\<open>useState\<close>; none of them looks at the props.\<close>

definition initial_state :: "'a props \<Rightarrow> state" where
  "initial_state P =
     \<lparr>visiblePages = [0, 1], isLoading = False, scrollToPage = None,
      showTopOverlay = False, showBottomOverlay = False\<rparr>"

definition totalPages :: "'a props \<Rightarrow> jsnum" where
  "totalPages P = ceil_div (length (data P)) (pageSize P)"

text \<open>
  \<^verbatim>\<open>visiblePages[visiblePages.length - 1]\<close> is \<open>last\<close>, \<^verbatim>\<open>visiblePages[0]\<close> and
  \<^verbatim>\<open>prev[1]\<close> are \<open>!\<close>.  The array holds exactly two integers in every state the
  component can reach (claim C3 below), so every such read is in range;
  on other arrays the source reads \<^verbatim>\<open>undefined\<close>, which the model does not represent.
\<close>

definition canLoadNext :: "'a props \<Rightarrow> int list \<Rightarrow> bool" where
  "canLoadNext P vp = js_lt (last vp) (js_pred (totalPages P))"

definition canLoadPrev :: "int list \<Rightarrow> bool" where
  "canLoadPrev vp = (vp ! 0 > 0)"

subsection \<open>The two handlers\<close>

text \<open>
  \<^verbatim>\<open>loadNextPage\<close> and \<^verbatim>\<open>loadPrevPage\<close> are asynchronous functions with one
  \<^verbatim>\<open>await\<close>.  Up to the \<^verbatim>\<open>await\<close> they test \<^verbatim>\<open>isLoading\<close> and set it; after the
  timer they update the window and clear \<^verbatim>\<open>isLoading\<close>.  The first half reads the
  \<^verbatim>\<open>isLoading\<close> of the render that created the handler (a \<^verbatim>\<open>const\<close> of that
  render's closure), the second half works on the latest state, since
  \<^verbatim>\<open>setVisiblePages\<close> is given an updater function.

  The updater of \<^verbatim>\<open>loadNextPage\<close>:
\<close>

definition next_updater :: "jsnum \<Rightarrow> int list \<Rightarrow> int list" where
  "next_updater tp prev =
     (let nextPage = last prev + 1
      in if js_ge nextPage tp then prev else [prev ! 1, nextPage])"

text \<open>The part of \<^verbatim>\<open>loadNextPage\<close> after the \<^verbatim>\<open>await\<close>.\<close>

definition loadNextPage_resume :: "'a props \<Rightarrow> state \<Rightarrow> state" where
  "loadNextPage_resume P s =
     (s\<lparr>visiblePages := next_updater (totalPages P) (visiblePages s)\<rparr>)\<lparr>isLoading := False\<rparr>"

text \<open>
  The part of \<^verbatim>\<open>loadPrevPage\<close> after the \<^verbatim>\<open>await\<close>.  Its updater calls
  \<^verbatim>\<open>setScrollToPage\<close> before it returns the new window, and returns early, without
  that call, when there is no previous page.
\<close>

definition loadPrevPage_resume :: "state \<Rightarrow> state" where
  "loadPrevPage_resume s =
     (let prev = visiblePages s;
          prevPage = prev ! 0 - 1
      in if prevPage < 0 then s\<lparr>isLoading := False\<rparr>
         else (s\<lparr>scrollToPage := Some (prevPage + 1),
                 visiblePages := [prevPage, prev ! 0]\<rparr>)\<lparr>isLoading := False\<rparr>)"

subsection \<open>The slices handed to \<^verbatim>\<open>renderPage\<close>\<close>

definition paginatedChunks :: "'a props \<Rightarrow> int list \<Rightarrow> (int \<times> 'a list) list" where
  "paginatedChunks P vp =
     map (\<lambda>page.
            let start = page * pageSize P;
                end' = start + pageSize P
            in (page, js_slice (data P) start end')) vp"

subsection \<open>The component as an event-driven system\<close>

text \<open>
  A handler is a closure of the render that created it: the \<^verbatim>\<open>isLoading\<close>,
  \<^verbatim>\<open>canLoadNext\<close>, \<^verbatim>\<open>canLoadPrev\<close> and \<^verbatim>\<open>scrollToPage\<close> it reads are the values of
  that render, while every \<^verbatim>\<open>set...\<close> call acts on the state React holds.  The
  system therefore carries both: \<open>cur\<close>, the state with every update applied, and
  \<open>rendered\<close>, the state of the last render, which is what the attached observers
  and ref callbacks see.  \<open>timers\<close> are the pending \<^verbatim>\<open>setTimeout\<close> continuations of
  the two handlers, in the order they were started (all have the same delay), and
  \<open>scrollWrapper\<close> is \<^verbatim>\<open>scrollWrapperRef.current\<close>.
\<close>

datatype task = NextTask | PrevTask

record element =
  offsetTop :: int
  clientHeight :: int

record wrapper =
  wrapperOffsetTop :: int
  scrollTop :: int

record sys =
  cur :: state
  rendered :: state
  timers :: "task list"
  scrollWrapper :: "wrapper option"

text \<open>
  \<^verbatim>\<open>loadNextPage\<close> and \<^verbatim>\<open>loadPrevPage\<close> up to the \<^verbatim>\<open>await\<close>; \<open>r\<close> is the state of the
  render whose closure the call runs in.
\<close>

definition loadNextPage :: "state \<Rightarrow> sys \<Rightarrow> sys" where
  "loadNextPage r y =
     (if isLoading r then y
      else y\<lparr>cur := (cur y)\<lparr>isLoading := True\<rparr>, timers := timers y @ [NextTask]\<rparr>)"

definition loadPrevPage :: "state \<Rightarrow> sys \<Rightarrow> sys" where
  "loadPrevPage r y =
     (if isLoading r then y
      else y\<lparr>cur := (cur y)\<lparr>isLoading := True\<rparr>, timers := timers y @ [PrevTask]\<rparr>)"

text \<open>The continuation that runs when a timer fires.\<close>

fun run_task :: "'a props \<Rightarrow> task \<Rightarrow> state \<Rightarrow> state" where
  "run_task P NextTask s = loadNextPage_resume P s"
| "run_task P PrevTask s = loadPrevPage_resume s"

definition timer_fires :: "'a props \<Rightarrow> sys \<Rightarrow> sys" where
  "timer_fires P y =
     (case timers y of
        [] \<Rightarrow> y
      | t # ts \<Rightarrow> y\<lparr>cur := run_task P t (cur y), timers := ts\<rparr>)"

text \<open>
  The callbacks of the two intersection observers; the argument is
  \<^verbatim>\<open>entry.isIntersecting\<close>.
\<close>

definition topObserver :: "state \<Rightarrow> bool \<Rightarrow> sys \<Rightarrow> sys" where
  "topObserver r isAtTop y =
     (let y1 = y\<lparr>cur := (cur y)\<lparr>showTopOverlay := \<not> isAtTop\<rparr>\<rparr>
      in if isAtTop \<and> \<not> isLoading r \<and> canLoadPrev (visiblePages r)
         then loadPrevPage r y1 else y1)"

definition bottomObserver :: "'a props \<Rightarrow> state \<Rightarrow> bool \<Rightarrow> sys \<Rightarrow> sys" where
  "bottomObserver P r isAtBottom y =
     (let y1 = y\<lparr>cur := (cur y)\<lparr>showBottomOverlay := \<not> isAtBottom\<rparr>\<rparr>
      in if isAtBottom \<and> \<not> isLoading r \<and> canLoadNext P (visiblePages r)
         then loadNextPage r y1 else y1)"

text \<open>
  The ref callback given to \<^verbatim>\<open>renderPage\<close> for the page with
  \<^verbatim>\<open>page === scrollToPage\<close>; \<open>el\<close> is the element React passes, \<open>None\<close> for
  \<^verbatim>\<open>null\<close>.
\<close>

definition page_ref :: "element option \<Rightarrow> sys \<Rightarrow> sys" where
  "page_ref el y =
     (case el of
        None \<Rightarrow> y
      | Some e \<Rightarrow>
          (case scrollWrapper y of
             None \<Rightarrow> y
           | Some w \<Rightarrow>
               y\<lparr>scrollWrapper :=
                    Some (w\<lparr>scrollTop := offsetTop e - wrapperOffsetTop w + clientHeight e\<rparr>),
                 cur := (cur y)\<lparr>scrollToPage := None\<rparr>\<rparr>))"

text \<open>
  A render followed by its commit.  The render reads the current state, which is
  from then on the state the handlers see; the commit attaches the refs, calling the
  ref callback of every chunk that was given one.  \<open>lay page\<close> is the element
  that \<^verbatim>\<open>renderPage\<close> attached the ref of that page to, if it did.
\<close>

definition render :: "'a props \<Rightarrow> (int \<Rightarrow> element option) \<Rightarrow> sys \<Rightarrow> sys" where
  "render P lay y =
     (let r = cur y
      in fold (\<lambda>(page, items). if scrollToPage r = Some page then page_ref (lay page) else id)
           (paginatedChunks P (visiblePages r)) (y\<lparr>rendered := r\<rparr>))"

datatype event =
    Render "int \<Rightarrow> element option"
  | TopObserved bool
  | BottomObserved bool
  | TimerFires

fun step :: "'a props \<Rightarrow> event \<Rightarrow> sys \<Rightarrow> sys" where
  "step P (Render lay) y = render P lay y"
| "step P (TopObserved b) y = topObserver (rendered y) b y"
| "step P (BottomObserved b) y = bottomObserver P (rendered y) b y"
| "step P TimerFires y = timer_fires P y"

definition run :: "'a props \<Rightarrow> event list \<Rightarrow> sys \<Rightarrow> sys" where
  "run P es y = fold (step P) es y"

text \<open>The system after the first render, with the scroll container \<open>w\<close> mounted.\<close>

definition mount :: "'a props \<Rightarrow> wrapper \<Rightarrow> sys" where
  "mount P w =
     \<lparr>cur = initial_state P, rendered = initial_state P, timers = [],
      scrollWrapper = Some w\<rparr>"

subsection \<open>Auxiliary notions and example configurations\<close>

text \<open>The shape of the window: two adjacent page indices, the first not negative.\<close>

definition window_ok :: "int list \<Rightarrow> bool" where
  "window_ok vp = (\<exists>low. 0 \<le> low \<and> vp = [low, low + 1])"

text \<open>The events that ask for a transition: an edge marker reporting its visibility.\<close>

fun is_trigger :: "event \<Rightarrow> bool" where
  "is_trigger (TopObserved b) = True"
| "is_trigger (BottomObserved b) = True"
| "is_trigger (Render lay) = False"
| "is_trigger TimerFires = False"

text \<open>
  The configuration of the README (a thousand integers in pages of twenty), a dataset
  shorter than one page, and an empty one.
\<close>

definition scenario :: "nat props" where
  "scenario = \<lparr>data = [0..<1000], pageSize = 20\<rparr>"

definition short_scenario :: "nat props" where
  "short_scenario = \<lparr>data = [0..<15], pageSize = 20\<rparr>"

definition empty_scenario :: "nat props" where
  "empty_scenario = \<lparr>data = [], pageSize = 20\<rparr>"

definition container :: wrapper where
  "container = \<lparr>wrapperOffsetTop = 8, scrollTop = 0\<rparr>"

text \<open>Two configurations with a page size that is not positive.\<close>

definition zero_scenario :: "nat props" where
  "zero_scenario = \<lparr>data = [0..<3], pageSize = 0\<rparr>"

definition negative_scenario :: "nat props" where
  "negative_scenario = \<lparr>data = [0..<10], pageSize = - 3\<rparr>"

text \<open>
  The scenario after one transition forwards and one back: the window is \<open>(0, 1)\<close>
  again and page \<open>1\<close> is the scroll anchor target.  \<open>layout\<close> is a measurement in
  which only page \<open>1\<close> has an element attached.
\<close>

definition retreated_sys :: sys where
  "retreated_sys =
     run scenario
       [BottomObserved True, Render (\<lambda>p. None), TimerFires, Render (\<lambda>p. None),
        TopObserved True, Render (\<lambda>p. None), TimerFires]
       (mount scenario container)"

definition layout :: "int \<Rightarrow> element option" where
  "layout p = (if p = 1 then Some \<lparr>offsetTop = 408, clientHeight = 400\<rparr> else None)"

section \<open>Properties\<close>

text \<open>The definitions that a run on a concrete configuration unfolds.\<close>

lemmas eval_defs = run_def mount_def initial_state_def bottomObserver_def topObserver_def
  canLoadNext_def canLoadPrev_def loadNextPage_def loadPrevPage_def timer_fires_def
  loadNextPage_resume_def loadPrevPage_resume_def next_updater_def render_def
  paginatedChunks_def page_ref_def Let_def

lemma ceil_div_ceiling:
  "d \<noteq> 0 \<Longrightarrow> ceil_div n d = Finite \<lceil>real n / real_of_int d\<rceil>"
proof -
  assume d: "d \<noteq> 0"
  have "\<lceil>real_of_int (int n) / real_of_int d\<rceil> = - ((- int n) div d)"
    by (rule ceiling_divide_eq_div)
  with d show ?thesis
    by (simp add: ceil_div_def)
qed

subsection \<open>Page counts\<close>

lemma totalPages_scenario: "totalPages scenario = Finite 50"
  by (simp add: totalPages_def scenario_def ceil_div_def)

lemma totalPages_short_scenario: "totalPages short_scenario = Finite 1"
  by (simp add: totalPages_def short_scenario_def ceil_div_def)

lemma totalPages_empty_scenario: "totalPages empty_scenario = Finite 0"
  by (simp add: totalPages_def empty_scenario_def ceil_div_def)

lemma totalPages_not_NaN:
  "pageSize P \<noteq> 0 \<or> data P \<noteq> [] \<Longrightarrow> totalPages P \<noteq> NaN"
  by (auto simp: totalPages_def ceil_div_def)

subsection \<open>Advancing and retreating\<close>

lemma next_updater_pair:
  "tp \<noteq> NaN \<Longrightarrow>
   next_updater tp [low, high] =
     (if js_lt high (js_pred tp) then [high, high + 1] else [low, high])"
  by (cases tp) (auto simp: next_updater_def)

text \<open>
  The one configuration left out by \<open>totalPages_not_NaN\<close> is \<^verbatim>\<open>pageSize = 0\<close> with an
  empty dataset.  There \<^verbatim>\<open>totalPages\<close> is \<^verbatim>\<open>NaN\<close>, both comparisons of the source are
  false, and the updater moves the window although \<^verbatim>\<open>canLoadNext\<close> is false.  The
  observer never calls \<^verbatim>\<open>loadNextPage\<close> in that configuration, since it tests
  \<^verbatim>\<open>canLoadNext\<close> first.
\<close>

lemma next_updater_NaN:
  "next_updater NaN [low, high] = [high, high + 1] \<and> \<not> js_lt high (js_pred NaN)"
  by (simp add: next_updater_def)

text \<open>
  Claim C1.  Let \<^verbatim>\<open>totalPages\<close> be a number (any configuration but \<^verbatim>\<open>pageSize = 0\<close>
  with no data).  For every window \<open>(low, high)\<close>, the completed \<^verbatim>\<open>loadNextPage\<close>
  leaves the window as it is when \<^verbatim>\<open>canLoadNext\<close> (\<open>high < totalPages - 1\<close>) is
  false, and makes it \<open>(high, high + 1)\<close> otherwise.  On a window of two adjacent
  pages the indices that leave and enter are exactly \<open>low\<close> and \<open>high + 1\<close>.
\<close>

theorem advance_window:
  assumes "pageSize P \<noteq> 0 \<or> data P \<noteq> []"
  shows "visiblePages (loadNextPage_resume P (s\<lparr>visiblePages := [low, high]\<rparr>)) =
           (if canLoadNext P [low, high] then [high, high + 1] else [low, high])
         \<and> (canLoadNext P [low, low + 1] \<longrightarrow>
              set [low, low + 1]
                - set (visiblePages (loadNextPage_resume P (s\<lparr>visiblePages := [low, low + 1]\<rparr>)))
                = {low}
            \<and> set (visiblePages (loadNextPage_resume P (s\<lparr>visiblePages := [low, low + 1]\<rparr>)))
                - set [low, low + 1]
                = {low + 1 + 1})"
  using totalPages_not_NaN [OF assms]
  by (auto simp: loadNextPage_resume_def canLoadNext_def next_updater_pair)

theorem advance_window_witness:
  "pageSize scenario \<noteq> 0 \<and> canLoadNext scenario [0, 0 + 1]
   \<and> visiblePages (loadNextPage_resume scenario (initial_state scenario)) = [1, 2]
   \<and> \<not> canLoadNext scenario [48, 49]
   \<and> visiblePages
        (loadNextPage_resume scenario ((initial_state scenario)\<lparr>visiblePages := [48, 49]\<rparr>))
       = [48, 49]"
  using advance_window [where P = scenario and s = "initial_state scenario" and low = 0 and high = 1]
    advance_window [where P = scenario and s = "initial_state scenario" and low = 48 and high = 49]
  by (simp add: canLoadNext_def totalPages_scenario initial_state_def) (simp add: scenario_def)

text \<open>
  Claim C2.  For every window \<open>(low, high)\<close>, the completed \<^verbatim>\<open>loadPrevPage\<close> leaves
  the window as it is when \<^verbatim>\<open>canLoadPrev\<close> (\<open>low > 0\<close>) is false; otherwise the window
  becomes \<open>(low - 1, low)\<close> and \<^verbatim>\<open>scrollToPage\<close> becomes the old \<open>low\<close>, the second page
  of the new pair.  In both cases \<^verbatim>\<open>isLoading\<close> is cleared and nothing else changes.
\<close>

theorem retreat_window:
  "loadPrevPage_resume (s\<lparr>visiblePages := [low, high]\<rparr>) =
     (if canLoadPrev [low, high]
      then s\<lparr>visiblePages := [low - 1, low], scrollToPage := Some low, isLoading := False\<rparr>
      else s\<lparr>visiblePages := [low, high], isLoading := False\<rparr>)"
  by (simp add: loadPrevPage_resume_def canLoadPrev_def Let_def)

theorem retreat_window_witness:
  "canLoadPrev [1, 2]
   \<and> loadPrevPage_resume ((initial_state scenario)\<lparr>visiblePages := [1, 2]\<rparr>)
       = (initial_state scenario)\<lparr>scrollToPage := Some 1\<rparr>
   \<and> \<not> canLoadPrev [0, 1]
   \<and> loadPrevPage_resume (initial_state scenario) = initial_state scenario"
  using retreat_window [where s = "initial_state scenario" and low = 1 and high = 2]
    retreat_window [where s = "initial_state scenario" and low = 0 and high = 1]
  by (simp add: canLoadPrev_def initial_state_def)

text \<open>
  Claim C4.  On a window of two adjacent pages for which \<^verbatim>\<open>canLoadNext\<close> holds, and
  \<^verbatim>\<open>canLoadPrev\<close> holds once the window has advanced, a completed \<^verbatim>\<open>loadNextPage\<close>
  followed by a completed \<^verbatim>\<open>loadPrevPage\<close> gives back the original window.
\<close>

theorem advance_then_retreat:
  assumes "canLoadNext P [low, low + 1]"
    and "canLoadPrev (visiblePages (loadNextPage_resume P (s\<lparr>visiblePages := [low, low + 1]\<rparr>)))"
  shows "visiblePages
           (loadPrevPage_resume (loadNextPage_resume P (s\<lparr>visiblePages := [low, low + 1]\<rparr>)))
         = [low, low + 1]"
  using assms
  by (cases "totalPages P")
    (auto simp: loadNextPage_resume_def loadPrevPage_resume_def canLoadNext_def
      canLoadPrev_def next_updater_def Let_def)

theorem advance_then_retreat_witness:
  "canLoadNext scenario [0, 0 + 1]
   \<and> canLoadPrev (visiblePages (loadNextPage_resume scenario (initial_state scenario)))
   \<and> visiblePages (loadNextPage_resume scenario (initial_state scenario)) = [1, 2]
   \<and> visiblePages (loadPrevPage_resume (loadNextPage_resume scenario (initial_state scenario)))
       = [0, 1]"
proof -
  have s: "(initial_state scenario)\<lparr>visiblePages := [0, 1]\<rparr> = initial_state scenario"
    by (simp add: initial_state_def)
  have a: "canLoadNext scenario [0, 0 + 1]"
    by (simp add: canLoadNext_def totalPages_scenario)
  have n: "visiblePages (loadNextPage_resume scenario (initial_state scenario)) = [1, 2]"
    by (simp add: loadNextPage_resume_def next_updater_def totalPages_scenario initial_state_def)
  have b: "canLoadPrev (visiblePages (loadNextPage_resume scenario (initial_state scenario)))"
    by (simp add: n canLoadPrev_def)
  from advance_then_retreat [where P = scenario and s = "initial_state scenario" and low = 0]
  have "visiblePages (loadPrevPage_resume (loadNextPage_resume scenario (initial_state scenario)))
          = [0, 1]"
    using a b by (simp add: s)
  with a b n show ?thesis by simp
qed

text \<open>
  Claim C10.  When \<^verbatim>\<open>canLoadPrev\<close> is false for the window (its low page is \<open>0\<close>),
  the completed \<^verbatim>\<open>loadPrevPage\<close> changes nothing but \<^verbatim>\<open>isLoading\<close>, which it
  clears: the window and \<^verbatim>\<open>scrollToPage\<close> are what they were.
\<close>

theorem dropped_retreat_frame:
  assumes "\<not> canLoadPrev (visiblePages s)"
  shows "loadPrevPage_resume s = s\<lparr>isLoading := False\<rparr>
       \<and> visiblePages (loadPrevPage_resume s) = visiblePages s
       \<and> scrollToPage (loadPrevPage_resume s) = scrollToPage s
       \<and> isLoading (loadPrevPage_resume s) = False"
  using assms by (simp add: loadPrevPage_resume_def canLoadPrev_def Let_def)

theorem dropped_retreat_frame_witness:
  "visiblePages ((initial_state scenario)\<lparr>isLoading := True, scrollToPage := Some 1\<rparr>) ! 0 = 0
   \<and> \<not> canLoadPrev
         (visiblePages ((initial_state scenario)\<lparr>isLoading := True, scrollToPage := Some 1\<rparr>))
   \<and> loadPrevPage_resume ((initial_state scenario)\<lparr>isLoading := True, scrollToPage := Some 1\<rparr>)
       = (initial_state scenario)\<lparr>scrollToPage := Some 1\<rparr>"
  using dropped_retreat_frame
    [where s = "(initial_state scenario)\<lparr>isLoading := True, scrollToPage := Some 1\<rparr>"]
  by (simp add: canLoadPrev_def initial_state_def)

subsection \<open>The window in every reachable state\<close>

lemma next_updater_window_ok: "window_ok vp \<Longrightarrow> window_ok (next_updater tp vp)"
  by (auto simp: window_ok_def next_updater_def Let_def)

lemma loadNextPage_resume_window_ok:
  "window_ok (visiblePages s) \<Longrightarrow> window_ok (visiblePages (loadNextPage_resume P s))"
  by (simp add: loadNextPage_resume_def next_updater_window_ok)

lemma loadPrevPage_resume_window_ok:
  "window_ok (visiblePages s) \<Longrightarrow> window_ok (visiblePages (loadPrevPage_resume s))"
  by (auto simp: window_ok_def loadPrevPage_resume_def Let_def)

lemma run_task_window_ok:
  "window_ok (visiblePages s) \<Longrightarrow> window_ok (visiblePages (run_task P t s))"
  by (cases t) (simp_all add: loadNextPage_resume_window_ok loadPrevPage_resume_window_ok)

lemma visiblePages_page_ref [simp]:
  "visiblePages (cur (page_ref el y)) = visiblePages (cur y)"
  by (simp add: page_ref_def split: option.splits)

lemma visiblePages_attach [simp]:
  "visiblePages (cur (fold (\<lambda>(page, items). if c page then page_ref (lay page) else id) cs y))
     = visiblePages (cur y)"
  by (induction cs arbitrary: y) (auto split: prod.splits)

lemma visiblePages_render [simp]:
  "visiblePages (cur (render P lay y)) = visiblePages (cur y)"
  by (simp add: render_def Let_def)

lemma visiblePages_loadNextPage [simp]:
  "visiblePages (cur (loadNextPage r y)) = visiblePages (cur y)"
  by (simp add: loadNextPage_def)

lemma visiblePages_loadPrevPage [simp]:
  "visiblePages (cur (loadPrevPage r y)) = visiblePages (cur y)"
  by (simp add: loadPrevPage_def)

lemma visiblePages_topObserver [simp]:
  "visiblePages (cur (topObserver r b y)) = visiblePages (cur y)"
  by (simp add: topObserver_def Let_def)

lemma visiblePages_bottomObserver [simp]:
  "visiblePages (cur (bottomObserver P r b y)) = visiblePages (cur y)"
  by (simp add: bottomObserver_def Let_def)

lemma step_window_ok:
  "window_ok (visiblePages (cur y)) \<Longrightarrow> window_ok (visiblePages (cur (step P e y)))"
  by (cases e) (auto simp: timer_fires_def run_task_window_ok split: list.splits)

lemma run_window_ok:
  "window_ok (visiblePages (cur y)) \<Longrightarrow> window_ok (visiblePages (cur (run P es y)))"
  unfolding run_def by (induction es arbitrary: y) (simp_all add: step_window_ok)

lemma mount_window_ok: "window_ok (visiblePages (cur (mount P w)))"
  by (simp add: mount_def initial_state_def window_ok_def)

text \<open>
  Claim C3.  Whatever events the mounted component has gone through (renders, edge
  markers becoming visible or hidden, timers firing, hence any sequence of completed
  \<^verbatim>\<open>loadNextPage\<close> and \<^verbatim>\<open>loadPrevPage\<close> calls), its window is a pair \<open>(low, high)\<close>
  with \<open>high = low + 1\<close>.
\<close>

theorem window_adjacent:
  "\<exists>low. visiblePages (cur (run P es (mount P w))) = [low, low + 1]"
  using run_window_ok [OF mount_window_ok, of P es P w] by (auto simp: window_ok_def)

theorem window_adjacent_witness:
  "visiblePages (cur (run scenario [BottomObserved True, Render (\<lambda>p. None), TimerFires]
      (mount scenario container))) = [1, 2]
   \<and> (\<exists>low. visiblePages (cur (run scenario [BottomObserved True, Render (\<lambda>p. None), TimerFires]
      (mount scenario container))) = [low, low + 1])"
proof -
  have "visiblePages (cur (run scenario [BottomObserved True, Render (\<lambda>p. None), TimerFires]
      (mount scenario container))) = [1, 2]"
    by (simp add: run_def mount_def initial_state_def bottomObserver_def canLoadNext_def
        totalPages_scenario loadNextPage_def timer_fires_def loadNextPage_resume_def
        next_updater_def render_def paginatedChunks_def Let_def)
  with window_adjacent [of scenario "[BottomObserved True, Render (\<lambda>p. None), TimerFires]" container]
  show ?thesis by simp
qed

subsection \<open>Triggers while a transition is in flight\<close>

lemma trigger_step_frame:
  assumes "isLoading (rendered y)" and "is_trigger e"
  shows "timers (step P e y) = timers y \<and> rendered (step P e y) = rendered y
       \<and> scrollWrapper (step P e y) = scrollWrapper y
       \<and> visiblePages (cur (step P e y)) = visiblePages (cur y)
       \<and> isLoading (cur (step P e y)) = isLoading (cur y)
       \<and> scrollToPage (cur (step P e y)) = scrollToPage (cur y)"
  using assms by (cases e) (simp_all add: topObserver_def bottomObserver_def Let_def)

lemma trigger_run_frame:
  assumes "isLoading (rendered y)" and "\<forall>e \<in> set es. is_trigger e"
  shows "timers (run P es y) = timers y \<and> rendered (run P es y) = rendered y
       \<and> scrollWrapper (run P es y) = scrollWrapper y
       \<and> visiblePages (cur (run P es y)) = visiblePages (cur y)
       \<and> isLoading (cur (run P es y)) = isLoading (cur y)
       \<and> scrollToPage (cur (run P es y)) = scrollToPage (cur y)"
  using assms unfolding run_def
proof (induction es arbitrary: y)
  case Nil
  then show ?case by simp
next
  case (Cons e es)
  from Cons.prems have e: "is_trigger e" and es: "\<forall>e \<in> set es. is_trigger e" by simp_all
  note f = trigger_step_frame [OF Cons.prems(1) e, of P]
  from f Cons.prems(1) have "isLoading (rendered (step P e y))" by simp
  from Cons.IH [OF this es] f show ?case by simp
qed

text \<open>
  What the test \<^verbatim>\<open>if (isLoading) return\<close> achieves.  Once the component has rendered
  with \<^verbatim>\<open>isLoading\<close> true, the handlers of that render return at once, and no
  sequence of edge markers firing changes the window, \<^verbatim>\<open>isLoading\<close>,
  \<^verbatim>\<open>scrollToPage\<close> or the pending timers.
\<close>

lemma rendered_flag_drops_triggers:
  assumes "isLoading (rendered y)" and "\<forall>e \<in> set es. is_trigger e"
  shows "loadNextPage (rendered y) y = y \<and> loadPrevPage (rendered y) y = y
       \<and> timers (run P es y) = timers y
       \<and> visiblePages (cur (run P es y)) = visiblePages (cur y)
       \<and> isLoading (cur (run P es y)) = isLoading (cur y)
       \<and> scrollToPage (cur (run P es y)) = scrollToPage (cur y)"
proof -
  note f = trigger_run_frame [OF assms, of P]
  have a: "loadNextPage (rendered y) y = y" "loadPrevPage (rendered y) y = y"
    using assms(1) by (simp_all add: loadNextPage_def loadPrevPage_def)
  from f a show ?thesis by simp
qed

text \<open>
  What it does not achieve.  The test reads the \<^verbatim>\<open>isLoading\<close> of the render the
  handler belongs to, a \<^verbatim>\<open>const\<close> that \<^verbatim>\<open>setIsLoading(true)\<close> does not change.
  Until the component renders again, a handler that has already set the flag is
  followed by handlers that still read it as false: each of them passes the test and
  starts a timer of its own.
\<close>

lemma same_render_next_twice:
  assumes "\<not> isLoading (rendered y)" and "canLoadNext P (visiblePages (rendered y))"
  shows "isLoading (cur (run P [BottomObserved True] y))
       \<and> timers (run P [BottomObserved True, BottomObserved True] y)
           = timers y @ [NextTask, NextTask]"
  using assms
  by (simp add: run_def bottomObserver_def loadNextPage_def Let_def)

lemma same_render_triggers:
  assumes "\<not> isLoading (rendered y)" and "canLoadPrev (visiblePages (rendered y))"
    and "canLoadNext P (visiblePages (rendered y))"
  shows "isLoading (cur (run P [TopObserved True] y))
       \<and> timers (run P [TopObserved True, BottomObserved True] y)
           = timers y @ [PrevTask, NextTask]"
  using assms
  by (simp add: run_def topObserver_def bottomObserver_def loadPrevPage_def loadNextPage_def
      Let_def)

text \<open>
  Claim C5 says that while the Load State flag is true a further trigger has no
  effect and is not queued, so that two calls of \<^verbatim>\<open>loadNextPage\<close> in immediate
  succession move the window by at most one step.  The component does otherwise on
  a thousand items in pages of twenty.  After the bottom marker has fired once on the
  mounted component, the flag is set in the state but not in the render the handlers
  belong to; the bottom marker firing again before the next render starts a second
  timer, and when both timers have fired the window is \<open>(2, 3)\<close>, two steps from
  \<open>(0, 1)\<close>.  In the same way, on the window \<open>(1, 2)\<close> the top and the bottom marker
  firing within one render start a \<^verbatim>\<open>loadPrevPage\<close> and a \<^verbatim>\<open>loadNextPage\<close>, and both
  take effect: the window goes to \<open>(0, 1)\<close> and back to \<open>(1, 2)\<close>, with page \<open>1\<close> left
  as the scroll anchor target.
\<close>

theorem second_trigger_not_dropped:
  "isLoading (cur (run scenario [BottomObserved True] (mount scenario container)))
   \<and> isLoading (rendered (run scenario [BottomObserved True] (mount scenario container))) = False
   \<and> timers (run scenario [BottomObserved True, BottomObserved True] (mount scenario container))
       = [NextTask, NextTask]
   \<and> visiblePages (cur (run scenario
        [BottomObserved True, BottomObserved True, TimerFires, TimerFires]
        (mount scenario container))) = [2, 3]
   \<and> timers (run scenario
        [BottomObserved True, Render (\<lambda>p. None), TimerFires, Render (\<lambda>p. None),
         TopObserved True, BottomObserved True]
        (mount scenario container)) = [PrevTask, NextTask]
   \<and> visiblePages (cur (run scenario
        [BottomObserved True, Render (\<lambda>p. None), TimerFires, Render (\<lambda>p. None),
         TopObserved True, BottomObserved True, TimerFires]
        (mount scenario container))) = [0, 1]
   \<and> visiblePages (cur (run scenario
        [BottomObserved True, Render (\<lambda>p. None), TimerFires, Render (\<lambda>p. None),
         TopObserved True, BottomObserved True, TimerFires, TimerFires]
        (mount scenario container))) = [1, 2]
   \<and> scrollToPage (cur (run scenario
        [BottomObserved True, Render (\<lambda>p. None), TimerFires, Render (\<lambda>p. None),
         TopObserved True, BottomObserved True, TimerFires, TimerFires]
        (mount scenario container))) = Some 1"
  by (simp add: eval_defs totalPages_scenario)

subsection \<open>The scroll anchor\<close>

lemma render_no_target:
  "scrollToPage (cur y) = None \<Longrightarrow> render P lay y = y\<lparr>rendered := cur y\<rparr>"
proof -
  have "fold (\<lambda>(page, items). if None = Some page then page_ref (lay page) else id) cs z = z"
    for cs :: "(int \<times> 'a list) list" and z
    by (induction cs arbitrary: z) (auto split: prod.splits)
  then show "scrollToPage (cur y) = None \<Longrightarrow> render P lay y = y\<lparr>rendered := cur y\<rparr>"
    by (simp add: render_def Let_def)
qed

lemma quiet_step:
  assumes "scrollToPage (cur y) = None" and "e \<noteq> TimerFires"
  shows "scrollToPage (cur (step P e y)) = None \<and> scrollWrapper (step P e y) = scrollWrapper y"
  using assms
  by (cases e)
    (simp_all add: render_no_target topObserver_def bottomObserver_def loadNextPage_def
      loadPrevPage_def Let_def)

lemma quiet_run:
  assumes "scrollToPage (cur y) = None" and "TimerFires \<notin> set es"
  shows "scrollToPage (cur (run P es y)) = None \<and> scrollWrapper (run P es y) = scrollWrapper y"
  using assms unfolding run_def
proof (induction es arbitrary: y)
  case Nil
  then show ?case by simp
next
  case (Cons e es)
  from Cons.prems have e: "e \<noteq> TimerFires" and es: "TimerFires \<notin> set es" by auto
  note q = quiet_step [OF Cons.prems(1) e, of P]
  from Cons.IH [of "step P e y"] q es show ?case by simp
qed

lemma render_target:
  assumes "scrollToPage (cur y) = Some p" and "visiblePages (cur y) = [low, low + 1]"
    and "p \<in> set [low, low + 1]" and "lay p = Some e" and "scrollWrapper y = Some w"
  shows "render P lay y =
           y\<lparr>rendered := cur y,
             scrollWrapper :=
               Some (w\<lparr>scrollTop := offsetTop e - wrapperOffsetTop w + clientHeight e\<rparr>),
             cur := (cur y)\<lparr>scrollToPage := None\<rparr>\<rparr>"
  using assms by (auto simp: render_def paginatedChunks_def page_ref_def Let_def)

text \<open>
  Claim C9.  Let \<^verbatim>\<open>scrollToPage\<close> name a page of the window, with the scroll container
  mounted and the page's element \<open>e\<close> attached to its ref.  The next render sets the
  container's \<^verbatim>\<open>scrollTop\<close> to the element's offset relative to the container
  (\<^verbatim>\<open>el.offsetTop - wrapper.offsetTop\<close>) plus the element's \<^verbatim>\<open>clientHeight\<close>, and
  clears \<^verbatim>\<open>scrollToPage\<close>.  After that no render changes \<^verbatim>\<open>scrollTop\<close>, whatever is
  measured then, as long as no further transition completes.
\<close>

theorem anchor_correction_once:
  assumes "scrollToPage (cur y) = Some p" and "visiblePages (cur y) = [low, low + 1]"
    and "p \<in> set [low, low + 1]" and "lay p = Some e" and "scrollWrapper y = Some w"
    and "TimerFires \<notin> set es"
  shows "scrollWrapper (render P lay y) =
           Some (w\<lparr>scrollTop := offsetTop e - wrapperOffsetTop w + clientHeight e\<rparr>)
       \<and> scrollToPage (cur (render P lay y)) = None
       \<and> scrollWrapper (render P lay' (render P lay y)) = scrollWrapper (render P lay y)
       \<and> scrollWrapper (run P es (render P lay y)) = scrollWrapper (render P lay y)"
proof -
  have r: "render P lay y =
           y\<lparr>rendered := cur y,
             scrollWrapper :=
               Some (w\<lparr>scrollTop := offsetTop e - wrapperOffsetTop w + clientHeight e\<rparr>),
             cur := (cur y)\<lparr>scrollToPage := None\<rparr>\<rparr>"
    using assms(1-5) by (rule render_target [where lay = lay])
  from r have n: "scrollToPage (cur (render P lay y)) = None" by simp
  from r n render_no_target [OF n, of P lay'] quiet_run [OF n assms(6), of P]
  show ?thesis by simp
qed

lemma retreated_sys_eq:
  "retreated_sys =
     \<lparr>cur = (initial_state scenario)\<lparr>scrollToPage := Some 1\<rparr>,
      rendered = (initial_state scenario)\<lparr>visiblePages := [1, 2], isLoading := True\<rparr>,
      timers = [], scrollWrapper = Some container\<rparr>"
  by (simp add: retreated_sys_def eval_defs totalPages_scenario)

theorem anchor_correction_once_witness:
  "scrollToPage (cur retreated_sys) = Some 1 \<and> visiblePages (cur retreated_sys) = [0, 0 + 1]
   \<and> layout 1 = Some \<lparr>offsetTop = 408, clientHeight = 400\<rparr>
   \<and> scrollWrapper retreated_sys = Some \<lparr>wrapperOffsetTop = 8, scrollTop = 0\<rparr>
   \<and> scrollWrapper (render scenario layout retreated_sys)
       = Some \<lparr>wrapperOffsetTop = 8, scrollTop = 800\<rparr>
   \<and> scrollToPage (cur (render scenario layout retreated_sys)) = None
   \<and> scrollWrapper (run scenario [Render layout, BottomObserved False, Render layout]
        (render scenario layout retreated_sys))
       = Some \<lparr>wrapperOffsetTop = 8, scrollTop = 800\<rparr>"
proof -
  have a: "scrollToPage (cur retreated_sys) = Some 1"
    "visiblePages (cur retreated_sys) = [0, 0 + 1]"
    "scrollWrapper retreated_sys = Some \<lparr>wrapperOffsetTop = 8, scrollTop = 0\<rparr>"
    by (simp_all add: retreated_sys_eq initial_state_def container_def)
  have b: "(1::int) \<in> set [0, 0 + 1]" by simp
  have c: "layout 1 = Some \<lparr>offsetTop = 408, clientHeight = 400\<rparr>"
    by (simp add: layout_def)
  have d: "TimerFires \<notin> set [Render layout, BottomObserved False, Render layout]" by simp
  from anchor_correction_once [where lay = layout and P = scenario and lay' = layout,
      OF a(1) a(2) b c a(3) d] a c
  show ?thesis by simp
qed

subsection \<open>Slices\<close>

lemma take_min_length: "take (min a (length ys)) ys = take a ys"
  by (simp add: min_def)

lemma ceil_mult_ge:
  fixes ps :: int
  assumes "0 < ps"
  shows "int n \<le> - ((- int n) div ps) * ps"
proof -
  have "(- int n) div ps * ps + (- int n) mod ps = - int n" by simp
  moreover have "0 \<le> (- int n) mod ps" using assms by simp
  ultimately have "(- int n) div ps * ps \<le> - int n" by linarith
  then show ?thesis by simp
qed

lemma ceil_nonneg:
  fixes ps :: int
  assumes "0 < ps"
  shows "0 \<le> - ((- int n) div ps)"
  using assms div_nonpos_pos_le0 [of "- int n" ps] by simp

lemma past_last_page:
  assumes "0 < ps" and "js_ge page (ceil_div n ps)"
  shows "int n \<le> page * ps \<and> 0 \<le> page"
proof -
  from assms have p: "- ((- int n) div ps) \<le> page" by (simp add: ceil_div_def)
  have "int n \<le> - ((- int n) div ps) * ps" using assms(1) by (rule ceil_mult_ge)
  also have "\<dots> \<le> page * ps" using p assms(1) by (rule mult_right_mono [OF _ less_imp_le])
  finally have a: "int n \<le> page * ps" .
  from ceil_nonneg [OF assms(1), of n] p have "0 \<le> page" by linarith
  with a show ?thesis by simp
qed

lemma js_slice_nonneg:
  assumes "0 \<le> s" and "0 \<le> c"
  shows "js_slice xs s (s + c) = take (nat c) (drop (nat s) xs)"
proof (cases "s < int (length xs)")
  case True
  then have k: "min s (int (length xs)) = s" by simp
  have f: "nat (min (s + c) (int (length xs)) - s) = min (nat c) (length (drop (nat s) xs))"
    using True assms by (simp add: min_def) linarith
  from assms have "js_slice xs s (s + c)
      = take (nat (min (s + c) (int (length xs)) - s)) (drop (nat s) xs)"
    by (simp add: js_slice_def Let_def k)
  also have "\<dots> = take (nat c) (drop (nat s) xs)"
    unfolding f by (rule take_min_length)
  finally show ?thesis .
next
  case False
  with assms have "min s (int (length xs)) = int (length xs)"
    "min (s + c) (int (length xs)) = int (length xs)" by simp_all
  with assms False show ?thesis
    by (simp add: js_slice_def Let_def)
qed

lemma map_fst_paginatedChunks: "map fst (paginatedChunks P vp) = vp"
  by (induction vp) (simp_all add: paginatedChunks_def Let_def)

lemma chunk_of_page:
  assumes "0 < pageSize P" and "0 \<le> page"
  shows "paginatedChunks P [page] =
           [(page, take (nat (pageSize P)) (drop (nat (page * pageSize P)) (data P)))]"
  using assms js_slice_nonneg [of "page * pageSize P" "pageSize P" "data P"]
  by (simp add: paginatedChunks_def Let_def)

lemma paginatedChunks_Cons:
  "paginatedChunks P (page # vp) = paginatedChunks P [page] @ paginatedChunks P vp"
  by (simp add: paginatedChunks_def)

lemma chunk_past_last_page:
  assumes "0 < pageSize P" and "js_ge page (totalPages P)"
  shows "paginatedChunks P [page] = [(page, [])]"
proof -
  from past_last_page [of "pageSize P" page "length (data P)"] assms
  have a: "int (length (data P)) \<le> page * pageSize P" and b: "0 \<le> page"
    by (simp_all add: totalPages_def)
  from a have "length (data P) \<le> nat (page * pageSize P)" by linarith
  with chunk_of_page [OF assms(1) b] show ?thesis by simp
qed

text \<open>
  Claim C7, as the code has it.  For a positive page size and a window of two
  adjacent pages from \<open>low \<ge> 0\<close>, the chunks are the two pairs of a page index and
  the items \<open>data[page * pageSize : page * pageSize + pageSize]\<close>, the range cut at the
  end of the dataset.  The list of chunks is not clipped: it has one entry for every
  index of the window, in order, whatever \<^verbatim>\<open>totalPages\<close> is.  An entry whose index is
  \<^verbatim>\<open>totalPages\<close> or more has no items.
\<close>

theorem chunks_not_clipped:
  assumes "0 < pageSize P" and "0 \<le> low"
  shows "paginatedChunks P [low, low + 1] =
           [(low, take (nat (pageSize P)) (drop (nat (low * pageSize P)) (data P))),
            (low + 1, take (nat (pageSize P)) (drop (nat ((low + 1) * pageSize P)) (data P)))]
       \<and> map fst (paginatedChunks P vp) = vp
       \<and> (js_ge low (totalPages P) \<longrightarrow>
            paginatedChunks P [low, low + 1] = [(low, []), (low + 1, [])])
       \<and> (js_ge (low + 1) (totalPages P) \<longrightarrow>
            snd (paginatedChunks P [low, low + 1] ! 1) = [])"
proof -
  from assms(2) have l: "0 \<le> low + 1" by simp
  have c: "paginatedChunks P [low, low + 1]
             = paginatedChunks P [low] @ paginatedChunks P [low + 1]"
    by (rule paginatedChunks_Cons)
  have g: "js_ge low (totalPages P) \<Longrightarrow> js_ge (low + 1) (totalPages P)"
    by (cases "totalPages P") simp_all
  show ?thesis
    using chunk_of_page [OF assms] chunk_of_page [OF assms(1) l]
      chunk_past_last_page [OF assms(1), of low] chunk_past_last_page [OF assms(1), of "low + 1"] g
    by (auto simp: c map_fst_paginatedChunks)
qed

theorem chunks_not_clipped_witness:
  "0 < pageSize scenario
   \<and> paginatedChunks scenario [0, 0 + 1] = [(0, [0..<20]), (1, [20..<40])]
   \<and> 0 < pageSize short_scenario \<and> js_ge (0 + 1) (totalPages short_scenario)
   \<and> paginatedChunks short_scenario [0, 0 + 1] = [(0, [0..<15]), (1, [])]
   \<and> 0 < pageSize empty_scenario \<and> js_ge 0 (totalPages empty_scenario)
   \<and> paginatedChunks empty_scenario [0, 0 + 1] = [(0, []), (1, [])]"
proof -
  have z: "(0::int) \<le> 0" by simp
  have a: "0 < pageSize scenario" "0 < pageSize short_scenario" "0 < pageSize empty_scenario"
    by (simp_all add: scenario_def short_scenario_def empty_scenario_def)
  have g: "js_ge (0 + 1) (totalPages short_scenario)" "js_ge 0 (totalPages empty_scenario)"
    by (simp_all add: totalPages_short_scenario totalPages_empty_scenario)
  have d: "data scenario = [0..<1000]" "pageSize scenario = 20"
    "data short_scenario = [0..<15]" "pageSize short_scenario = 20"
    "data empty_scenario = []" "pageSize empty_scenario = 20"
    by (simp_all add: scenario_def short_scenario_def empty_scenario_def)
  from chunks_not_clipped [OF a(1) z, of "[0, 1]"]
  have 1: "paginatedChunks scenario [0, 0 + 1] = [(0, [0..<20]), (1, [20..<40])]"
    by (simp add: d)
  from chunks_not_clipped [OF a(2) z, of "[0, 1]"]
  have 2: "paginatedChunks short_scenario [0, 0 + 1] = [(0, [0..<15]), (1, [])]"
    by (simp add: d)
  from chunks_not_clipped [OF a(3) z, of "[0, 1]"]
  have 3: "paginatedChunks empty_scenario [0, 0 + 1] = [(0, []), (1, [])]"
    by (simp add: d)
  from a g 1 2 3 show ?thesis by simp
qed

text \<open>
  Claim C7 as stated asks for no chunk at all when \<^verbatim>\<open>totalPages\<close> is \<open>0\<close>, and for no
  chunk of a page past \<^verbatim>\<open>totalPages - 1\<close>.  The empty dataset gives two chunks, and
  the dataset with one page gives a chunk for page \<open>1\<close>.
\<close>

theorem chunks_clipped_counterexample:
  "totalPages empty_scenario = Finite 0
   \<and> paginatedChunks empty_scenario (visiblePages (initial_state empty_scenario))
       = [(0, []), (1, [])]
   \<and> paginatedChunks empty_scenario (visiblePages (initial_state empty_scenario)) \<noteq> []
   \<and> totalPages short_scenario = Finite 1
   \<and> paginatedChunks short_scenario (visiblePages (initial_state short_scenario))
       = [(0, [0..<15]), (1, [])]
   \<and> 1 \<in> set (map fst (paginatedChunks short_scenario (visiblePages (initial_state short_scenario))))"
  by (simp add: totalPages_def ceil_div_def initial_state_def
      paginatedChunks_def js_slice_def empty_scenario_def short_scenario_def)

subsection \<open>The initial window\<close>

text \<open>
  Claim C8 as stated asks for the window \<open>(0, 0)\<close> when only one page exists.  With
  fifteen items in pages of twenty there is one page, and the window starts as
  \<open>(0, 1)\<close>.
\<close>

theorem initial_window_one_page_counterexample:
  "totalPages short_scenario = Finite 1
   \<and> visiblePages (initial_state short_scenario) = [0, 1]
   \<and> visiblePages (initial_state short_scenario) \<noteq> [0, 0]
   \<and> visiblePages (cur (mount short_scenario container)) \<noteq> [0, 0]"
  by (simp add: totalPages_short_scenario initial_state_def mount_def)

text \<open>
  Claim C8, as the code has it.  For every dataset and page size the initial window
  is \<open>(0, 1)\<close>, in the state passed to \<^verbatim>\<open>useState\<close> and in the mounted component;
  this includes the configurations with a single page, or with none.
\<close>

theorem initial_window:
  "visiblePages (initial_state P) = [0, 1]
   \<and> visiblePages (cur (mount P w)) = [0, 1]
   \<and> visiblePages (rendered (mount P w)) = [0, 1]"
  by (simp add: initial_state_def mount_def)

theorem initial_window_witness:
  "totalPages scenario = Finite 50 \<and> visiblePages (initial_state scenario) = [0, 1]
   \<and> totalPages short_scenario = Finite 1 \<and> visiblePages (initial_state short_scenario) = [0, 1]"
  using initial_window [of scenario container] initial_window [of short_scenario container]
  by (simp add: totalPages_scenario totalPages_short_scenario)

text \<open>
  With at most two pages the window never leaves \<open>(0, 1)\<close>: no transition succeeds.
\<close>

lemma few_pages_step:
  assumes "totalPages P = Finite k" and "k \<le> 2" and "visiblePages (cur y) = [0, 1]"
  shows "visiblePages (cur (step P e y)) = [0, 1]"
proof (cases e)
  case TimerFires
  show ?thesis
  proof (cases "timers y")
    case Nil
    with TimerFires assms(3) show ?thesis by (simp add: timer_fires_def)
  next
    case (Cons t ts)
    with TimerFires assms show ?thesis
      by (cases t)
        (simp_all add: timer_fires_def loadNextPage_resume_def loadPrevPage_resume_def
          next_updater_def Let_def)
  qed
qed (simp_all add: assms(3))

lemma few_pages_window_fixed:
  assumes "totalPages P = Finite k" and "k \<le> 2"
  shows "visiblePages (cur (run P es (mount P w))) = [0, 1]"
proof -
  have "visiblePages (cur y) = [0, 1] \<Longrightarrow> visiblePages (cur (fold (step P) es y)) = [0, 1]" for y
    by (induction es arbitrary: y) (simp_all add: few_pages_step [OF assms])
  then show ?thesis
    by (simp add: run_def mount_def initial_state_def)
qed

subsection \<open>A page size that is not positive\<close>

lemma zero_pageSize_chunks:
  "pageSize P = 0 \<Longrightarrow> paginatedChunks P vp = map (\<lambda>page. (page, [])) vp"
  by (simp add: paginatedChunks_def js_slice_def Let_def)

lemma zero_pageSize_totalPages:
  "pageSize P = 0 \<Longrightarrow> data P \<noteq> [] \<Longrightarrow> totalPages P = Infinity"
  by (simp add: totalPages_def ceil_div_def)

lemma negative_pageSize_totalPages:
  assumes "pageSize P < 0"
  shows "\<exists>k\<le>0. totalPages P = Finite k"
proof -
  have "0 \<le> (- int (length (data P))) div pageSize P"
    using assms div_int_pos_iff [of "- int (length (data P))" "pageSize P"] by auto
  with assms show ?thesis by (simp add: totalPages_def ceil_div_def)
qed

lemma negative_pageSize_chunks:
  assumes "pageSize P < 0"
  shows "paginatedChunks P [0, 1] =
           [(0, take (nat (int (length (data P)) + pageSize P)) (data P)), (1, [])]"
  using assms by (simp add: paginatedChunks_def js_slice_def Let_def max_def)

text \<open>
  Claim C6, as the code has it.  A page size of zero or less is not rejected: the
  component mounts with the window \<open>(0, 1)\<close> as always.  With \<^verbatim>\<open>pageSize = 0\<close> every
  chunk is empty and, when there is data, \<^verbatim>\<open>totalPages\<close> is \<^verbatim>\<open>Infinity\<close>:
  \<^verbatim>\<open>canLoadNext\<close> holds on every window and each completed \<^verbatim>\<open>loadNextPage\<close> moves
  it.  With \<^verbatim>\<open>pageSize < 0\<close>, \<^verbatim>\<open>totalPages\<close> is at most \<open>0\<close>, \<^verbatim>\<open>canLoadNext\<close> is false
  on the initial window, whose first chunk is the dataset without its last
  \<open>- pageSize\<close> items and whose second chunk is empty.
\<close>

theorem nonpositive_pageSize_accepted:
  assumes "pageSize P \<le> 0"
  shows "visiblePages (cur (mount P w)) = [0, 1]
       \<and> (pageSize P = 0 \<longrightarrow>
            paginatedChunks P vp = map (\<lambda>page. (page, [])) vp
            \<and> (data P \<noteq> [] \<longrightarrow>
                 totalPages P = Infinity \<and> canLoadNext P [low, high]
                 \<and> visiblePages (loadNextPage_resume P (s\<lparr>visiblePages := [low, high]\<rparr>))
                     = [high, high + 1]))
       \<and> (pageSize P < 0 \<longrightarrow>
            (\<exists>k\<le>0. totalPages P = Finite k) \<and> \<not> canLoadNext P [0, 1]
            \<and> paginatedChunks P [0, 1] =
                [(0, take (nat (int (length (data P)) + pageSize P)) (data P)), (1, [])])"
proof -
  have a: "visiblePages (cur (mount P w)) = [0, 1]"
    by (simp add: mount_def initial_state_def)
  have b: "pageSize P = 0 \<Longrightarrow> data P \<noteq> [] \<Longrightarrow>
      canLoadNext P [low, high]
      \<and> visiblePages (loadNextPage_resume P (s\<lparr>visiblePages := [low, high]\<rparr>)) = [high, high + 1]"
    by (simp add: zero_pageSize_totalPages canLoadNext_def loadNextPage_resume_def next_updater_def)
  have c: "pageSize P < 0 \<Longrightarrow> \<not> canLoadNext P [0, 1]"
    using negative_pageSize_totalPages [of P] by (auto simp: canLoadNext_def)
  from a b c zero_pageSize_chunks [of P vp] zero_pageSize_totalPages [of P]
    negative_pageSize_totalPages [of P] negative_pageSize_chunks [of P]
  show ?thesis by blast
qed

theorem nonpositive_pageSize_accepted_witness:
  "pageSize zero_scenario \<le> 0 \<and> pageSize zero_scenario = 0 \<and> data zero_scenario \<noteq> []
   \<and> paginatedChunks zero_scenario [0, 1] = [(0, []), (1, [])]
   \<and> totalPages zero_scenario = Infinity
   \<and> canLoadNext zero_scenario [1000, 1001]
   \<and> visiblePages
        (loadNextPage_resume zero_scenario ((initial_state zero_scenario)\<lparr>visiblePages := [1000, 1001]\<rparr>))
       = [1001, 1002]
   \<and> pageSize negative_scenario \<le> 0 \<and> pageSize negative_scenario < 0
   \<and> \<not> canLoadNext negative_scenario [0, 1]
   \<and> paginatedChunks negative_scenario [0, 1] = [(0, [0..<7]), (1, [])]"
proof -
  have z: "pageSize zero_scenario \<le> 0" "pageSize zero_scenario = 0" "data zero_scenario \<noteq> []"
    by (simp_all add: zero_scenario_def)
  have n: "pageSize negative_scenario \<le> 0" "pageSize negative_scenario < 0"
    "data negative_scenario = [0..<10]" "pageSize negative_scenario = - 3"
    by (simp_all add: negative_scenario_def)
  from nonpositive_pageSize_accepted
    [OF z(1), where vp = "[0, 1]" and low = 1000 and high = 1001
      and s = "initial_state zero_scenario"] z
  have 1: "paginatedChunks zero_scenario [0, 1] = [(0, []), (1, [])]
     \<and> totalPages zero_scenario = Infinity
     \<and> canLoadNext zero_scenario [1000, 1001]
     \<and> visiblePages
        (loadNextPage_resume zero_scenario ((initial_state zero_scenario)\<lparr>visiblePages := [1000, 1001]\<rparr>))
       = [1001, 1002]"
    by simp
  from nonpositive_pageSize_accepted [OF n(1)] n
  have 2: "\<not> canLoadNext negative_scenario [0, 1]
     \<and> paginatedChunks negative_scenario [0, 1] = [(0, [0..<7]), (1, [])]"
    by simp
  from z n(1,2) 1 2 show ?thesis by simp
qed

text \<open>
  Claim C6 as stated asks for an error at construction or first use.  The source has
  no check of \<^verbatim>\<open>pageSize\<close> and no \<^verbatim>\<open>throw\<close>: with three items and \<^verbatim>\<open>pageSize = 0\<close>
  the first render produces two empty pages, \<^verbatim>\<open>totalPages\<close> is \<^verbatim>\<open>Infinity\<close>, and two
  transitions move the window to the pages \<open>(2, 3)\<close> of a dataset of three items.
\<close>

theorem nonpositive_pageSize_counterexample:
  "pageSize zero_scenario \<le> 0
   \<and> totalPages zero_scenario = Infinity
   \<and> paginatedChunks zero_scenario (visiblePages (cur (mount zero_scenario container)))
       = [(0, []), (1, [])]
   \<and> canLoadNext zero_scenario (visiblePages (cur (mount zero_scenario container)))
   \<and> visiblePages (cur (run zero_scenario
        [BottomObserved True, Render (\<lambda>p. None), TimerFires, Render (\<lambda>p. None),
         BottomObserved True, Render (\<lambda>p. None), TimerFires, Render (\<lambda>p. None)]
        (mount zero_scenario container))) = [2, 3]
   \<and> paginatedChunks zero_scenario [2, 3] = [(2, []), (3, [])]"
proof -
  have t: "totalPages zero_scenario = Infinity"
    by (simp add: totalPages_def ceil_div_def zero_scenario_def)
  show ?thesis
    by (simp add: eval_defs t) (simp add: zero_scenario_def js_slice_def)
qed

end
